theory Spec2Isabelle
  imports Main
begin

section \<open>Python exceptions and results\<close>

text \<open>
  The estimator of \<^verbatim>\<open>cdqa/reader/reader_sklearn.py\<close> is embedded as pure functions.
  Every \<^verbatim>\<open>raise\<close> of the source, and every exception of a library call it makes, is
  a value of \<open>error\<close>; a computation that can raise returns \<open>error + 'a\<close> with
  \<open>Inl\<close> for the exception.  The string is the message, or the name of the routine
  that raised for exceptions coming out of an external library.  Logging, progress bars
  and the placement of tensors on a device are left out.
\<close>

datatype error =
    ValueError string
  | TypeError string
  | IndexError string
  | AttributeError string
  | UnboundLocalError string
  | FileNotFoundError string
  | FileExistsError string
  | NotADirectoryError string
  | IsADirectoryError string
  | UnpicklingError string
  | ExternalError string

definition bindE :: "error + 'a \<Rightarrow> ('a \<Rightarrow> error + 'b) \<Rightarrow> error + 'b" where
  "bindE m f = (case m of Inl e \<Rightarrow> Inl e | Inr x \<Rightarrow> f x)"

text \<open>Indexing a tuple or a list with a non-negative constant, \<^verbatim>\<open>xs[k]\<close>.\<close>

definition tuple_get :: "'a list \<Rightarrow> nat \<Rightarrow> error + 'a" where
  "tuple_get xs k =
     (if k < length xs then Inr (xs ! k) else Inl (IndexError ''tuple index out of range''))"

section \<open>Tensors, datasets and batches\<close>

text \<open>
  A tensor is kept as its element type and its slices along dimension 0: a slice of a
  one-dimensional tensor is a scalar, a slice of a two-dimensional one is a row.  The
  float tensor \<^verbatim>\<open>all_p_mask\<close> keeps the integers it was converted from.
\<close>

datatype dtype = Long | Float

datatype cell = Scalar int | Row "int list"

datatype tensor = Tensor dtype "cell list"

fun cells :: "tensor \<Rightarrow> cell list" where
  "cells (Tensor dt cs) = cs"

fun size0 :: "tensor \<Rightarrow> nat" where
  "size0 (Tensor dt cs) = length cs"

definition rectangular :: "int list list \<Rightarrow> bool" where
  "rectangular rows =
     (case rows of [] \<Rightarrow> True | r # rs \<Rightarrow> list_all (\<lambda>x. length x = length r) rs)"

text \<open>\<^verbatim>\<open>torch.tensor([...], dtype=dt)\<close> of a list of integer lists, and of a list of integers.\<close>

definition torch_tensor_rows :: "dtype \<Rightarrow> int list list \<Rightarrow> error + tensor" where
  "torch_tensor_rows dt rows =
     (if rectangular rows then Inr (Tensor dt (map Row rows))
      else Inl (ValueError ''expected sequence of equal length''))"

definition torch_tensor_scalars :: "dtype \<Rightarrow> int list \<Rightarrow> tensor" where
  "torch_tensor_scalars dt xs = Tensor dt (map Scalar xs)"

definition torch_tensor_optional :: "dtype \<Rightarrow> int option list \<Rightarrow> error + tensor" where
  "torch_tensor_optional dt xs =
     (if list_all (\<lambda>x. x \<noteq> None) xs then Inr (Tensor dt (map (\<lambda>x. Scalar (the x)) xs))
      else Inl (TypeError ''an integer is required''))"

definition torch_arange :: "nat \<Rightarrow> tensor" where
  "torch_arange n = Tensor Long (map (\<lambda>i. Scalar (int i)) [0..<n])"

text \<open>
  One window of one example (\<^verbatim>\<open>InputFeatures\<close> of \<^verbatim>\<open>cdqa.reader.utils_squad\<close>, a
  class that is not part of the sources at hand): the fields the estimator reads.
  \<open>start_position\<close> and \<open>end_position\<close> are \<^verbatim>\<open>None\<close> for features built for
  evaluation.
\<close>

record feature =
  unique_id :: int
  input_ids :: "int list"
  input_mask :: "int list"
  segment_ids :: "int list"
  cls_index :: int
  p_mask :: "int list"
  start_position :: "int option"
  end_position :: "int option"

text \<open>
  Lines 300--315 of \<^verbatim>\<open>load_and_cache_examples\<close>: the \<^verbatim>\<open>TensorDataset\<close> is the tuple of
  its tensors, in the order they are passed.
\<close>

type_synonym dataset = "tensor list"

definition build_dataset :: "bool \<Rightarrow> feature list \<Rightarrow> error + dataset" where
  "build_dataset evaluate features =
     bindE (torch_tensor_rows Long (map input_ids features)) (\<lambda>all_input_ids.
     bindE (torch_tensor_rows Long (map input_mask features)) (\<lambda>all_input_mask.
     bindE (torch_tensor_rows Long (map segment_ids features)) (\<lambda>all_segment_ids.
     let all_cls_index = torch_tensor_scalars Long (map cls_index features) in
     bindE (torch_tensor_rows Float (map p_mask features)) (\<lambda>all_p_mask.
     if evaluate then
       let all_example_index = torch_arange (size0 all_input_ids) in
       Inr [all_input_ids, all_input_mask, all_segment_ids,
            all_example_index, all_cls_index, all_p_mask]
     else
       bindE (torch_tensor_optional Long (map start_position features)) (\<lambda>all_start_positions.
       bindE (torch_tensor_optional Long (map end_position features)) (\<lambda>all_end_positions.
       Inr [all_input_ids, all_input_mask, all_segment_ids,
            all_start_positions, all_end_positions,
            all_cls_index, all_p_mask]))))))"

definition dataset_len :: "dataset \<Rightarrow> nat" where
  "dataset_len ds = (case ds of [] \<Rightarrow> 0 | t # ts \<Rightarrow> size0 t)"

text \<open>
  \<^verbatim>\<open>DataLoader(dataset, sampler=..., batch_size=n)\<close> refuses a batch size that is not
  positive when it is built.  Iterating it cuts the sampler's indices into runs of
  \<open>n\<close>; each batch stacks, tensor by tensor, the slices at the indices of one run
  (the default collation), and is built when the loop reaches it.
\<close>

function chunks :: "nat \<Rightarrow> 'a list \<Rightarrow> 'a list list" where
  "chunks n xs = (if n = 0 \<or> xs = [] then [] else take n xs # chunks n (drop n xs))"
  by pat_completeness auto
termination
  by (relation "measure (\<lambda>(n, xs). length xs)") auto

definition data_loader :: "nat list \<Rightarrow> int \<Rightarrow> error + nat list list" where
  "data_loader sampler batch_size =
     (if batch_size \<le> 0 then Inl (ValueError ''batch_size should be a positive integer value'')
      else Inr (chunks (nat batch_size) sampler))"

definition gather :: "nat list \<Rightarrow> tensor \<Rightarrow> error + tensor" where
  "gather idx t =
     (case t of Tensor dt cs \<Rightarrow>
        if list_all (\<lambda>i. i < length cs) idx then Inr (Tensor dt (map (\<lambda>i. cs ! i) idx))
        else Inl (IndexError ''index out of range''))"

fun sequenceE :: "(error + 'a) list \<Rightarrow> error + 'a list" where
  "sequenceE [] = Inr []"
| "sequenceE (m # ms) = bindE m (\<lambda>x. bindE (sequenceE ms) (\<lambda>xs. Inr (x # xs)))"

type_synonym batch = "tensor list"

definition collate :: "dataset \<Rightarrow> nat list \<Rightarrow> error + batch" where
  "collate ds idx = sequenceE (map (gather idx) ds)"

section \<open>The keyword arguments of the model call\<close>

text \<open>
  \<^verbatim>\<open>inputs\<close> is a dictionary from argument names to tensors or \<^verbatim>\<open>None\<close>, kept in
  insertion order as a list of pairs with distinct keys; \<open>map_of\<close> reads it.  Both
  functions return the dictionary passed as \<^verbatim>\<open>model(**inputs)\<close> together with
  \<^verbatim>\<open>example_indices\<close>.
\<close>

type_synonym kwargs = "(string \<times> tensor option) list"

definition dict_set :: "'k \<Rightarrow> 'v \<Rightarrow> ('k \<times> 'v) list \<Rightarrow> ('k \<times> 'v) list" where
  "dict_set k v d =
     (if k \<in> set (map fst d) then map (\<lambda>(k', v'). if k' = k then (k', v) else (k', v')) d
      else d @ [(k, v)])"

definition dict_update :: "('k \<times> 'v) list \<Rightarrow> ('k \<times> 'v) list \<Rightarrow> ('k \<times> 'v) list" where
  "dict_update d new = fold (\<lambda>(k, v). dict_set k v) new d"

definition extended_model :: "string \<Rightarrow> bool" where
  "extended_model model_type = (model_type \<in> {''xlnet'', ''xlm''})"

definition update_extended :: "string \<Rightarrow> batch \<Rightarrow> kwargs \<Rightarrow> error + kwargs" where
  "update_extended model_type b inputs =
     (if extended_model model_type then
        bindE (tuple_get b 4) (\<lambda>b4.
        bindE (tuple_get b 5) (\<lambda>b5.
        Inr (dict_update inputs [(''cls_index'', Some b4), (''p_mask'', Some b5)])))
      else Inr inputs)"

text \<open>Lines 220--227, in \<^verbatim>\<open>evaluate\<close>.\<close>

definition evaluate_inputs :: "string \<Rightarrow> batch \<Rightarrow> error + (kwargs \<times> tensor)" where
  "evaluate_inputs model_type b =
     bindE (tuple_get b 0) (\<lambda>b0.
     bindE (tuple_get b 1) (\<lambda>b1.
     bindE (if model_type = ''xlm'' then Inr None else bindE (tuple_get b 2) (\<lambda>b2. Inr (Some b2)))
       (\<lambda>tt.
     let inputs = [(''input_ids'', Some b0),
                   (''attention_mask'', Some b1),
                   (''token_type_ids'', tt)] in
     bindE (tuple_get b 3) (\<lambda>example_indices.
     bindE (update_extended model_type b inputs) (\<lambda>inputs'.
     Inr (inputs', example_indices))))))"

text \<open>Lines 342--348, in \<^verbatim>\<open>predict\<close>.\<close>

definition predict_inputs :: "string \<Rightarrow> batch \<Rightarrow> error + (kwargs \<times> tensor)" where
  "predict_inputs model_type b =
     bindE (tuple_get b 0) (\<lambda>b0.
     bindE (if model_type = ''xlm'' then Inr None else bindE (tuple_get b 1) (\<lambda>b1. Inr (Some b1)))
       (\<lambda>tt.
     bindE (tuple_get b 2) (\<lambda>b2.
     let inputs = [(''input_ids'', Some b0),
                   (''token_type_ids'', tt),
                   (''attention_mask'', Some b2)] in
     bindE (tuple_get b 3) (\<lambda>example_indices.
     bindE (update_extended model_type b inputs) (\<lambda>inputs'.
     Inr (inputs', example_indices))))))"

section \<open>Strings and paths\<close>

text \<open>\<^verbatim>\<open>str(n)\<close> of an integer, \<^verbatim>\<open>s.split(c)\<close>, and \<^verbatim>\<open>os.path\<close> of a POSIX system.\<close>

function str_nat :: "nat \<Rightarrow> string" where
  "str_nat n =
     (if n < 10 then [''0123456789'' ! n]
      else str_nat (n div 10) @ [''0123456789'' ! (n mod 10)])"
  by pat_completeness auto
termination
  by (relation "measure id") auto

definition str_int :: "int \<Rightarrow> string" where
  "str_int i = (if i < 0 then CHR ''-'' # str_nat (nat (- i)) else str_nat (nat i))"

fun split_on :: "char \<Rightarrow> string \<Rightarrow> string list" where
  "split_on c [] = [[]]"
| "split_on c (x # xs) =
     (if x = c then [] # split_on c xs
      else (case split_on c xs of [] \<Rightarrow> [[x]] | w # ws \<Rightarrow> (x # w) # ws))"

definition os_path_dirname :: "string \<Rightarrow> string" where
  "os_path_dirname p =
     (let head = rev (dropWhile (\<lambda>c. c \<noteq> CHR ''/'') (rev p)) in
      if head \<noteq> [] \<and> \<not> list_all (\<lambda>c. c = CHR ''/'') head
      then rev (dropWhile (\<lambda>c. c = CHR ''/'') (rev head))
      else head)"

definition os_path_join :: "string \<Rightarrow> string \<Rightarrow> string" where
  "os_path_join a b =
     (if b \<noteq> [] \<and> hd b = CHR ''/'' then b
      else if a = [] \<or> last a = CHR ''/'' then a @ b
      else a @ ''/'' @ b)"

section \<open>The objects the estimator works on\<close>

text \<open>
  A file system maps a path to what is there: a directory with its listing, a file
  holding a feature list written by \<^verbatim>\<open>torch.save\<close>, or any other file.  Paths are
  compared as strings; a write adds or replaces the node at its path and leaves the
  listings of directories as they are.
\<close>

datatype node = Dir "string list" | FeaturesFile "feature list" | OtherFile

type_synonym filesystem = "string \<rightharpoonup> node"

text \<open>
  The calls that leave the process, in the order they are made.  \<open>ModelCall\<close> carries
  the keyword arguments of the call; the two writer events carry the prediction file,
  the n-best file and the null-odds file they were given.
\<close>

datatype event =
    TorchLoad string
  | TorchSave string
  | ReadSquadExamples
  | ConvertExamplesToFeatures
  | Makedirs string
  | Train
  | FromPretrained "string option"
  | SavePretrained string
  | ModelCall kwargs
  | WritePredictions string string "string option"
  | WritePredictionsExtended string string "string option"
  | EvaluateOnSquad string "string option"

text \<open>
  The input \<open>X\<close> of \<^verbatim>\<open>fit\<close>, \<^verbatim>\<open>evaluate\<close> and \<^verbatim>\<open>predict\<close>: a path (a \<^verbatim>\<open>str\<close>), or data
  already in memory.
\<close>

datatype 'x input_file = PathInput string | DataInput 'x

text \<open>
  The \<^verbatim>\<open>Reader\<close> object after \<^verbatim>\<open>__init__\<close>: the attributes that \<^verbatim>\<open>fit\<close>, \<^verbatim>\<open>evaluate\<close>,
  \<^verbatim>\<open>predict\<close> and the functions they call read or assign.  \<open>output_dir\<close> is \<^verbatim>\<open>None\<close>
  unless the caller sets it; \<open>eval_batch_size\<close> is not an attribute until
  \<^verbatim>\<open>evaluate\<close> or \<^verbatim>\<open>predict\<close> assigns it.  \<open>'m\<close> is the type of models, \<open>'tk\<close> of
  tokenizers and \<open>'r\<close> of floats.
\<close>

record ('m, 'tk, 'r) reader =
  model_type :: string
  model_name_or_path :: string
  output_dir :: "string option"
  version_2_with_negative :: bool
  null_score_diff_threshold :: 'r
  max_seq_length :: int
  doc_stride :: int
  max_query_length :: int
  do_lower_case :: bool
  per_gpu_eval_batch_size :: int
  n_best_size :: int
  max_answer_length :: int
  verbose_logging :: bool
  eval_all_checkpoints :: bool
  overwrite_output_dir :: bool
  overwrite_cache :: bool
  local_rank :: int
  n_gpu :: int
  eval_batch_size :: "int option"
  model :: 'm
  tokenizer :: 'tk

text \<open>
  The state a call runs in.  The module-level functions receive the \<^verbatim>\<open>Reader\<close> itself
  as \<^verbatim>\<open>args\<close> and assign to it, so it is part of the state.
\<close>

record ('m, 'tk, 'r) state =
  args :: "('m, 'tk, 'r) reader"
  fs :: filesystem
  trace :: "event list"

type_synonym ('a, 's) prog = "'s \<Rightarrow> (error + 'a) \<times> 's"

definition returnS :: "'a \<Rightarrow> ('a, 's) prog" where
  "returnS x s = (Inr x, s)"

definition raiseS :: "error \<Rightarrow> ('a, 's) prog" where
  "raiseS e s = (Inl e, s)"

definition liftE :: "error + 'a \<Rightarrow> ('a, 's) prog" where
  "liftE m s = (m, s)"

definition bindS :: "('a, 's) prog \<Rightarrow> ('a \<Rightarrow> ('b, 's) prog) \<Rightarrow> ('b, 's) prog" where
  "bindS m f s = (case m s of (Inl e, s') \<Rightarrow> (Inl e, s') | (Inr x, s') \<Rightarrow> f x s')"

definition emit :: "event \<Rightarrow> (unit, ('m, 'tk, 'r) state) prog" where
  "emit ev s = (Inr (), s\<lparr>trace := trace s @ [ev]\<rparr>)"

text \<open>A library call that reads the file system and may raise, logged as \<open>ev\<close>.\<close>

definition call_fs :: "event \<Rightarrow> (filesystem \<Rightarrow> error + 'a) \<Rightarrow> ('a, ('m, 'tk, 'r) state) prog" where
  "call_fs ev f = bindS (emit ev) (\<lambda>_ s. (f (fs s), s))"

text \<open>A library call that may also change the file system; what it wrote stays
  written when it raises.\<close>

definition call_fs_upd ::
  "event \<Rightarrow> (filesystem \<Rightarrow> (error + 'a) \<times> filesystem) \<Rightarrow> ('a, ('m, 'tk, 'r) state) prog" where
  "call_fs_upd ev f =
     bindS (emit ev) (\<lambda>_ s. case f (fs s) of (r, fs') \<Rightarrow> (r, s\<lparr>fs := fs'\<rparr>))"

subsection \<open>The file-system calls of the source\<close>

text \<open>A path argument that is \<^verbatim>\<open>None\<close> makes \<^verbatim>\<open>os.path.exists\<close>, \<^verbatim>\<open>os.path.join\<close>
  and string concatenation raise \<^verbatim>\<open>TypeError\<close>.\<close>

definition require_path :: "string option \<Rightarrow> error + string" where
  "require_path p =
     (case p of None \<Rightarrow> Inl (TypeError ''expected str, not NoneType'') | Some q \<Rightarrow> Inr q)"

definition os_path_exists :: "filesystem \<Rightarrow> string \<Rightarrow> bool" where
  "os_path_exists f p = (f p \<noteq> None)"

definition os_listdir :: "filesystem \<Rightarrow> string \<Rightarrow> error + string list" where
  "os_listdir f p =
     (case f p of
        None \<Rightarrow> Inl (FileNotFoundError p)
      | Some (Dir names) \<Rightarrow> Inr names
      | Some _ \<Rightarrow> Inl (NotADirectoryError p))"

definition os_makedirs :: "string \<Rightarrow> (unit, ('m, 'tk, 'r) state) prog" where
  "os_makedirs p =
     call_fs_upd (Makedirs p)
       (\<lambda>f. if f p \<noteq> None then (Inl (FileExistsError p), f) else (Inr (), f(p \<mapsto> Dir [])))"

definition torch_load :: "string \<Rightarrow> (feature list, ('m, 'tk, 'r) state) prog" where
  "torch_load p =
     call_fs (TorchLoad p)
       (\<lambda>f. case f p of
              None \<Rightarrow> Inl (FileNotFoundError p)
            | Some (Dir names) \<Rightarrow> Inl (IsADirectoryError p)
            | Some (FeaturesFile features) \<Rightarrow> Inr features
            | Some OtherFile \<Rightarrow> Inl (UnpicklingError p))"

definition torch_save :: "feature list \<Rightarrow> string \<Rightarrow> (unit, ('m, 'tk, 'r) state) prog" where
  "torch_save features p =
     call_fs_upd (TorchSave p)
       (\<lambda>f. case f p of
              Some (Dir names) \<Rightarrow> (Inl (IsADirectoryError p), f)
            | _ \<Rightarrow> (Inr (), f(p \<mapsto> FeaturesFile features)))"

text \<open>
  \<^verbatim>\<open>if not os.path.exists(args.output_dir) and args.local_rank in [-1, 0]:
  os.makedirs(args.output_dir)\<close>, as \<^verbatim>\<open>evaluate\<close>, \<^verbatim>\<open>predict\<close> and \<^verbatim>\<open>Reader.fit\<close> have it.
\<close>

definition ensure_output_dir :: "(unit, ('m, 'tk, 'r) state) prog" where
  "ensure_output_dir s =
     (case require_path (output_dir (args s)) of
        Inl e \<Rightarrow> (Inl e, s)
      | Inr d \<Rightarrow>
          if \<not> os_path_exists (fs s) d \<and> local_rank (args s) \<in> {- 1, 0}
          then os_makedirs d s
          else (Inr (), s))"

section \<open>What the estimator calls but does not define\<close>

text \<open>
  Values whose Python type the source does not fix: what the two prediction writers
  return, and so what \<^verbatim>\<open>predict\<close> returns.
\<close>

datatype pyval =
    PyNone
  | PyNum int
  | PyStr string
  | PyTuple "pyval list"
  | PyList "pyval list"
  | PyDict "(string \<times> pyval) list"

text \<open>The assignment \<^verbatim>\<open>a, b = v\<close>: \<open>v\<close> is iterated and must yield two values.\<close>

definition unpack_count :: "nat \<Rightarrow> error" where
  "unpack_count n =
     (if n < 2 then ValueError (''not enough values to unpack (expected 2, got '' @ str_nat n @ '')'')
      else ValueError ''too many values to unpack (expected 2)'')"

fun unpack2 :: "pyval \<Rightarrow> error + pyval \<times> pyval" where
  "unpack2 (PyTuple [a, b]) = Inr (a, b)"
| "unpack2 (PyTuple vs) = Inl (unpack_count (length vs))"
| "unpack2 (PyList [a, b]) = Inr (a, b)"
| "unpack2 (PyList vs) = Inl (unpack_count (length vs))"
| "unpack2 (PyStr [c, d]) = Inr (PyStr [c], PyStr [d])"
| "unpack2 (PyStr cs) = Inl (unpack_count (length cs))"
| "unpack2 (PyDict [(k, v), (k', v')]) = Inr (PyStr k, PyStr k')"
| "unpack2 (PyDict kvs) = Inl (unpack_count (length kvs))"
| "unpack2 PyNone = Inl (TypeError ''cannot unpack non-iterable NoneType object'')"
| "unpack2 (PyNum n) = Inl (TypeError ''cannot unpack non-iterable int object'')"

text \<open>
  \<^verbatim>\<open>RawResult\<close> and \<^verbatim>\<open>RawResultExtended\<close> of \<^verbatim>\<open>cdqa.reader.utils_squad\<close>; \<open>'l\<close> is what
  \<^verbatim>\<open>to_list(outputs[k][i])\<close> gives.
\<close>

datatype 'l raw_result =
    RawResult int 'l 'l
  | RawResultExtended int 'l 'l 'l 'l 'l

text \<open>
  The routines of other modules and libraries, taken as parameters.  The first eight are
  the functions of \<^verbatim>\<open>cdqa.reader.utils_squad\<close>, \<^verbatim>\<open>cdqa.reader.utils_squad_evaluate\<close>,
  \<^verbatim>\<open>torch\<close> and \<^verbatim>\<open>pytorch_transformers\<close> that the source calls, with the arguments in the
  order of the call.  \<open>glob_weights d\<close> is \<^verbatim>\<open>sorted(glob.glob(d + '/**/' + WEIGHTS_NAME,
  recursive=True))\<close>.  \<open>train\<close> stands for the function \<^verbatim>\<open>train\<close> of the source
  (lines 76--197), a gradient-descent loop over the tensors of the external framework:
  it is given the whole state and returns \<^verbatim>\<open>(global_step, tr_loss / global_step)\<close>.
\<close>

record ('x, 'ex, 'm, 'tk, 'l, 'r) externals =
  read_squad_examples :: "'x input_file \<Rightarrow> bool \<Rightarrow> bool \<Rightarrow> filesystem \<Rightarrow> error + 'ex list"
  convert_examples_to_features ::
    "'ex list \<Rightarrow> 'tk \<Rightarrow> int \<Rightarrow> int \<Rightarrow> int \<Rightarrow> bool \<Rightarrow> error + feature list"
  write_predictions ::
    "'ex list \<Rightarrow> feature list \<Rightarrow> 'l raw_result list \<Rightarrow> int \<Rightarrow> int \<Rightarrow> bool \<Rightarrow>
     string \<Rightarrow> string \<Rightarrow> string option \<Rightarrow> bool \<Rightarrow> bool \<Rightarrow> 'r \<Rightarrow>
     filesystem \<Rightarrow> (error + pyval) \<times> filesystem"
  write_predictions_extended ::
    "'ex list \<Rightarrow> feature list \<Rightarrow> 'l raw_result list \<Rightarrow> int \<Rightarrow> int \<Rightarrow>
     string \<Rightarrow> string \<Rightarrow> string option \<Rightarrow> 'x input_file \<Rightarrow> int \<Rightarrow> int \<Rightarrow>
     bool \<Rightarrow> 'tk \<Rightarrow> bool \<Rightarrow> filesystem \<Rightarrow> (error + pyval) \<times> filesystem"
  evaluate_on_squad ::
    "'x input_file \<Rightarrow> string \<Rightarrow> string option \<Rightarrow> filesystem \<Rightarrow> error + (string \<times> 'r) list"
  distributed_sampler :: "nat \<Rightarrow> error + nat list"
  model_forward :: "'m \<Rightarrow> kwargs \<Rightarrow> error + 'l list list"
  from_pretrained :: "string option \<Rightarrow> filesystem \<Rightarrow> error + 'm"
  start_n_top :: "'m \<Rightarrow> int"
  end_n_top :: "'m \<Rightarrow> int"
  glob_weights :: "string \<Rightarrow> filesystem \<Rightarrow> string list"
  get_rank :: "error + int"
  save_pretrained :: "'m \<Rightarrow> 'tk \<Rightarrow> string \<Rightarrow> filesystem \<Rightarrow> (error + unit) \<times> filesystem"
  torch_save_params :: "string \<Rightarrow> filesystem \<Rightarrow> (error + unit) \<times> filesystem"
  train ::
    "dataset \<Rightarrow> 'm \<Rightarrow> 'tk \<Rightarrow> ('m, 'tk, 'r) state \<Rightarrow> (error + int \<times> 'r) \<times> ('m, 'tk, 'r) state"

section \<open>\<^verbatim>\<open>load_and_cache_examples\<close>\<close>

text \<open>
  Lines 278--281.  \<^verbatim>\<open>list(filter(None, s.split('/'))).pop()\<close> is the last non-empty piece
  of the model name, and raises on a name with none.
\<close>

definition last_piece :: "string \<Rightarrow> error + string" where
  "last_piece s =
     (case filter (\<lambda>w. w \<noteq> []) (split_on CHR ''/'' s) of
        [] \<Rightarrow> Inl (IndexError ''pop from empty list'')
      | w # ws \<Rightarrow> Inr (last (w # ws)))"

definition cached_features_file ::
  "'x input_file \<Rightarrow> ('m, 'tk, 'r) reader \<Rightarrow> bool \<Rightarrow> error + string" where
  "cached_features_file input_file a evaluate =
     bindE (last_piece (model_name_or_path a)) (\<lambda>name.
     Inr (os_path_join
            (case input_file of PathInput p \<Rightarrow> os_path_dirname p | DataInput x \<Rightarrow> [])
            (''cached_'' @ (if evaluate then ''dev'' else ''train'') @ ''_'' @ name @ ''_''
               @ str_int (max_seq_length a))))"

text \<open>
  What the function returns: the dataset alone, or the triple \<^verbatim>\<open>(dataset, examples,
  features)\<close> when \<^verbatim>\<open>output_examples\<close> is set.
\<close>

datatype 'ex loaded = DatasetOnly dataset | WithExamples dataset "'ex list" "feature list"

text \<open>
  Lines 282--298: the features, and the examples when they were read.  The variable
  \<^verbatim>\<open>examples\<close> is bound only on the second branch.
\<close>

definition load_features ::
  "('x, 'ex, 'm, 'tk, 'l, 'r) externals \<Rightarrow> 'x input_file \<Rightarrow> 'tk \<Rightarrow> bool \<Rightarrow> bool \<Rightarrow> string \<Rightarrow>
   ('ex list option \<times> feature list, ('m, 'tk, 'r) state) prog" where
  "load_features ext input_file tok evaluate output_examples cached s =
     (if os_path_exists (fs s) cached \<and> \<not> overwrite_cache (args s) \<and> \<not> output_examples then
        bindS (torch_load cached) (\<lambda>features. returnS (None, features)) s
      else
        bindS (call_fs ReadSquadExamples
                 (read_squad_examples ext input_file (\<not> evaluate)
                    (version_2_with_negative (args s)))) (\<lambda>examples.
        bindS (bindS (emit ConvertExamplesToFeatures) (\<lambda>_.
                 liftE (convert_examples_to_features ext examples tok
                    (max_seq_length (args s)) (doc_stride (args s))
                    (max_query_length (args s)) (\<not> evaluate)))) (\<lambda>features.
        bindS (if local_rank (args s) \<in> {- 1, 0} then torch_save features cached
               else returnS ()) (\<lambda>_.
        returnS (Some examples, features)))) s)"

definition load_and_cache_examples ::
  "('x, 'ex, 'm, 'tk, 'l, 'r) externals \<Rightarrow> 'x input_file \<Rightarrow> 'tk \<Rightarrow> bool \<Rightarrow> bool \<Rightarrow>
   ('ex loaded, ('m, 'tk, 'r) state) prog" where
  "load_and_cache_examples ext input_file tok evaluate output_examples s =
     bindS (liftE (cached_features_file input_file (args s) evaluate)) (\<lambda>cached.
     bindS (load_features ext input_file tok evaluate output_examples cached)
       (\<lambda>(examples, features).
     bindS (liftE (build_dataset evaluate features)) (\<lambda>dataset.
     if output_examples then
       (case examples of
          None \<Rightarrow> raiseS (UnboundLocalError ''examples'')
        | Some exs \<Rightarrow> returnS (WithExamples dataset exs features))
     else returnS (DatasetOnly dataset)))) s"

section \<open>\<^verbatim>\<open>evaluate\<close> and \<^verbatim>\<open>predict\<close>\<close>

text \<open>\<^verbatim>\<open>xs[i]\<close> on a list with Python's negative indices, and \<^verbatim>\<open>t.item()\<close>.\<close>

definition py_index :: "'a list \<Rightarrow> int \<Rightarrow> error + 'a" where
  "py_index xs i =
     (let n = int (length xs); j = (if i < 0 then n + i else i) in
      if 0 \<le> j \<and> j < n then Inr (xs ! nat j) else Inl (IndexError ''list index out of range''))"

definition item :: "cell \<Rightarrow> error + int" where
  "item c =
     (case c of
        Scalar i \<Rightarrow> Inr i
      | Row [i] \<Rightarrow> Inr i
      | Row r \<Rightarrow> Inl (ValueError ''only one element tensors can be converted to Python scalars''))"

definition output_at :: "'l list list \<Rightarrow> nat \<Rightarrow> nat \<Rightarrow> error + 'l" where
  "output_at outputs k i = bindE (tuple_get outputs k) (\<lambda>t. tuple_get t i)"

text \<open>Lines 231--244, and the same text at lines 352--365: the result of one example.\<close>

definition make_result ::
  "string \<Rightarrow> feature list \<Rightarrow> 'l list list \<Rightarrow> nat \<Rightarrow> cell \<Rightarrow> error + 'l raw_result" where
  "make_result mt features outputs i example_index =
     bindE (item example_index) (\<lambda>j.
     bindE (py_index features j) (\<lambda>eval_feature.
     let uid = unique_id eval_feature in
     if extended_model mt then
       bindE (output_at outputs 0 i) (\<lambda>start_top_log_probs.
       bindE (output_at outputs 1 i) (\<lambda>start_top_index.
       bindE (output_at outputs 2 i) (\<lambda>end_top_log_probs.
       bindE (output_at outputs 3 i) (\<lambda>end_top_index.
       bindE (output_at outputs 4 i) (\<lambda>cls_logits.
       Inr (RawResultExtended uid start_top_log_probs start_top_index
              end_top_log_probs end_top_index cls_logits))))))
     else
       bindE (output_at outputs 0 i) (\<lambda>start_logits.
       bindE (output_at outputs 1 i) (\<lambda>end_logits.
       Inr (RawResult uid start_logits end_logits)))))"

text \<open>
  The loop over the batches (lines 216--245 and 338--366).  The two functions differ
  only in how they build \<^verbatim>\<open>inputs\<close>, which is the parameter \<open>mk\<close>.
\<close>

fun run_batches ::
  "('x, 'ex, 'm, 'tk, 'l, 'r) externals \<Rightarrow> (string \<Rightarrow> batch \<Rightarrow> error + (kwargs \<times> tensor)) \<Rightarrow>
   'm \<Rightarrow> dataset \<Rightarrow> feature list \<Rightarrow> nat list list \<Rightarrow> 'l raw_result list \<Rightarrow>
   ('l raw_result list, ('m, 'tk, 'r) state) prog" where
  "run_batches ext mk m ds features [] all_results = returnS all_results"
| "run_batches ext mk m ds features (idx # rest) all_results =
     bindS (liftE (collate ds idx)) (\<lambda>b.
     bindS (\<lambda>s. liftE (mk (model_type (args s)) b) s) (\<lambda>(inputs, example_indices).
     bindS (emit (ModelCall inputs)) (\<lambda>_.
     bindS (liftE (model_forward ext m inputs)) (\<lambda>outputs.
     bindS (\<lambda>s. liftE (sequenceE (map (\<lambda>(i, c). make_result (model_type (args s)) features outputs i c)
                                    (enumerate 0 (cells example_indices)))) s) (\<lambda>results.
     run_batches ext mk m ds features rest (all_results @ results))))))"

text \<open>Line 206 (and 328): the assignment to \<^verbatim>\<open>args.eval_batch_size\<close>; the value is returned.\<close>

definition set_eval_batch_size :: "(int, ('m, 'tk, 'r) state) prog" where
  "set_eval_batch_size s =
     (let n = per_gpu_eval_batch_size (args s) * max 1 (n_gpu (args s)) in
      (Inr n, s\<lparr>args := (args s)\<lparr>eval_batch_size := Some n\<rparr>\<rparr>))"

text \<open>Line 208 (and 330).\<close>

definition eval_sampler ::
  "('x, 'ex, 'm, 'tk, 'l, 'r) externals \<Rightarrow> dataset \<Rightarrow> (nat list, ('m, 'tk, 'r) state) prog" where
  "eval_sampler ext ds s =
     (if local_rank (args s) = - 1 then (Inr [0..<dataset_len ds], s)
      else (distributed_sampler ext (dataset_len ds), s))"

text \<open>
  Lines 201--245 of \<^verbatim>\<open>evaluate\<close> and 323--366 of \<^verbatim>\<open>predict\<close>: the examples, the features
  and one result per example.
\<close>

definition run_model ::
  "('x, 'ex, 'm, 'tk, 'l, 'r) externals \<Rightarrow> (string \<Rightarrow> batch \<Rightarrow> error + (kwargs \<times> tensor)) \<Rightarrow>
   'x input_file \<Rightarrow> 'm \<Rightarrow> 'tk \<Rightarrow>
   ('ex list \<times> feature list \<times> 'l raw_result list, ('m, 'tk, 'r) state) prog" where
  "run_model ext mk input_file m tok =
     bindS (load_and_cache_examples ext input_file tok True True) (\<lambda>loaded.
     case loaded of
       DatasetOnly ds \<Rightarrow> raiseS (TypeError ''cannot unpack a dataset into three names'')
     | WithExamples ds examples features \<Rightarrow>
         bindS ensure_output_dir (\<lambda>_.
         bindS set_eval_batch_size (\<lambda>batch_size.
         bindS (eval_sampler ext ds) (\<lambda>sampler.
         bindS (liftE (data_loader sampler batch_size)) (\<lambda>eval_dataloader.
         bindS (run_batches ext mk m ds features eval_dataloader []) (\<lambda>all_results.
         returnS (examples, features, all_results)))))))"

definition output_file :: "string \<Rightarrow> string \<Rightarrow> string \<Rightarrow> string" where
  "output_file dir stem prefix = os_path_join dir (stem @ ''_'' @ prefix @ ''.json'')"

text \<open>Lines 255--266 and 373--384: the call that writes the predictions.\<close>

definition call_writer ::
  "('x, 'ex, 'm, 'tk, 'l, 'r) externals \<Rightarrow> 'x input_file \<Rightarrow> 'm \<Rightarrow> 'tk \<Rightarrow> 'ex list \<Rightarrow>
   feature list \<Rightarrow> 'l raw_result list \<Rightarrow> string \<Rightarrow> string \<Rightarrow> string option \<Rightarrow>
   (pyval, ('m, 'tk, 'r) state) prog" where
  "call_writer ext input_file m tok examples features all_results
     output_prediction_file output_nbest_file output_null_log_odds_file s =
     (let a = args s in
      if extended_model (model_type a) then
        call_fs_upd
          (WritePredictionsExtended output_prediction_file output_nbest_file
             output_null_log_odds_file)
          (write_predictions_extended ext examples features all_results (n_best_size a)
             (max_answer_length a) output_prediction_file output_nbest_file
             output_null_log_odds_file input_file (start_n_top ext m) (end_n_top ext m)
             (version_2_with_negative a) tok (verbose_logging a)) s
      else
        call_fs_upd
          (WritePredictions output_prediction_file output_nbest_file
             output_null_log_odds_file)
          (write_predictions ext examples features all_results (n_best_size a)
             (max_answer_length a) (do_lower_case a) output_prediction_file output_nbest_file
             output_null_log_odds_file (verbose_logging a) (version_2_with_negative a)
             (null_score_diff_threshold a)) s)"

text \<open>
  \<^verbatim>\<open>evaluate(input_file, args, model, tokenizer, prefix)\<close>, lines 200--273.  The value the
  writer returns is dropped.
\<close>

definition evaluate ::
  "('x, 'ex, 'm, 'tk, 'l, 'r) externals \<Rightarrow> 'x input_file \<Rightarrow> 'm \<Rightarrow> 'tk \<Rightarrow> string \<Rightarrow>
   ((string \<times> 'r) list, ('m, 'tk, 'r) state) prog" where
  "evaluate ext input_file m tok prefix =
     bindS (run_model ext evaluate_inputs input_file m tok) (\<lambda>(examples, features, all_results).
     bindS (\<lambda>s. liftE (require_path (output_dir (args s))) s) (\<lambda>dir.
     let output_prediction_file = output_file dir ''predictions'' prefix;
         output_nbest_file = output_file dir ''nbest_predictions'' prefix in
     bindS (\<lambda>s. returnS (if version_2_with_negative (args s)
                          then Some (output_file dir ''null_odds'' prefix) else None) s)
       (\<lambda>output_null_log_odds_file.
     bindS (call_writer ext input_file m tok examples features all_results
              output_prediction_file output_nbest_file output_null_log_odds_file) (\<lambda>_.
     call_fs (EvaluateOnSquad output_prediction_file output_null_log_odds_file)
       (evaluate_on_squad ext input_file output_prediction_file output_null_log_odds_file)))))"

text \<open>\<^verbatim>\<open>predict(input_file, args, model, tokenizer, prefix)\<close>, lines 322--386.\<close>

definition predict ::
  "('x, 'ex, 'm, 'tk, 'l, 'r) externals \<Rightarrow> 'x input_file \<Rightarrow> 'm \<Rightarrow> 'tk \<Rightarrow> string \<Rightarrow>
   (pyval, ('m, 'tk, 'r) state) prog" where
  "predict ext input_file m tok prefix =
     bindS (run_model ext predict_inputs input_file m tok) (\<lambda>(examples, features, all_results).
     bindS (\<lambda>s. liftE (require_path (output_dir (args s))) s) (\<lambda>dir.
     let output_prediction_file = output_file dir ''predictions'' prefix;
         output_nbest_file = output_file dir ''nbest_predictions'' prefix;
         output_null_log_odds_file = output_file dir ''null_odds'' prefix in
     bindS (call_writer ext input_file m tok examples features all_results
              output_prediction_file output_nbest_file (Some output_null_log_odds_file))
       (\<lambda>written.
     bindS (\<lambda>s. (if extended_model (model_type (args s)) then
                   bindS (liftE (unpack2 written)) (\<lambda>(out_eval, final_prediction).
                   returnS final_prediction)
                 else returnS written) s) (\<lambda>final_prediction.
     returnS final_prediction))))"

section \<open>The class \<^verbatim>\<open>Reader\<close>\<close>

text \<open>Lines 527--528 of \<^verbatim>\<open>fit\<close>: the check of the output directory.\<close>

definition not_empty_message :: "string \<Rightarrow> string" where
  "not_empty_message dir =
     ''Output directory ('' @ dir @
     '') already exists and is not empty. Use --overwrite_output_dir to overcome.''"

definition fit_guard :: "(unit, ('m, 'tk, 'r) state) prog" where
  "fit_guard s =
     (case require_path (output_dir (args s)) of
        Inl e \<Rightarrow> (Inl e, s)
      | Inr dir \<Rightarrow>
          if os_path_exists (fs s) dir then
            (case os_listdir (fs s) dir of
               Inl e \<Rightarrow> (Inl e, s)
             | Inr names \<Rightarrow>
                 if names \<noteq> [] \<and> \<not> overwrite_output_dir (args s)
                 then (Inl (ValueError (not_empty_message dir)), s)
                 else (Inr (), s))
          else (Inr (), s))"

text \<open>Lines 535--548 of \<^verbatim>\<open>fit\<close>: saving the trained model.\<close>

definition save_trained ::
  "('x, 'ex, 'm, 'tk, 'l, 'r) externals \<Rightarrow> (unit, ('m, 'tk, 'r) state) prog" where
  "save_trained ext =
     bindS (\<lambda>s. liftE (if local_rank (args s) = - 1 then Inr True
                       else bindE (get_rank ext) (\<lambda>r. Inr (r = 0))) s) (\<lambda>first.
     if first then
       bindS ensure_output_dir (\<lambda>_.
       bindS (\<lambda>s. liftE (require_path (output_dir (args s))) s) (\<lambda>dir.
       bindS (\<lambda>s. call_fs_upd (SavePretrained dir)
                    (save_pretrained ext (model (args s)) (tokenizer (args s)) dir) s) (\<lambda>_.
       call_fs_upd (TorchSave (os_path_join dir ''training_args.bin''))
         (torch_save_params ext (os_path_join dir ''training_args.bin'')))))
     else returnS ())"

text \<open>Lines 530--548 of \<^verbatim>\<open>fit\<close>: the features, the training and the saving.\<close>

definition fit_train ::
  "('x, 'ex, 'm, 'tk, 'l, 'r) externals \<Rightarrow> 'x input_file \<Rightarrow> (unit, ('m, 'tk, 'r) state) prog" where
  "fit_train ext X =
     bindS (\<lambda>s. load_and_cache_examples ext X (tokenizer (args s)) False False s) (\<lambda>loaded.
     case loaded of
       WithExamples ds examples features \<Rightarrow> raiseS (TypeError ''train: a tuple is not a dataset'')
     | DatasetOnly train_dataset \<Rightarrow>
         bindS (emit Train) (\<lambda>_.
         bindS (\<lambda>s. train ext train_dataset (model (args s)) (tokenizer (args s)) s)
           (\<lambda>(global_step, tr_loss).
         save_trained ext)))"

text \<open>\<^verbatim>\<open>Reader.fit(X)\<close>, lines 525--550.  It returns \<^verbatim>\<open>self\<close>, which is in the state.\<close>

definition Reader_fit ::
  "('x, 'ex, 'm, 'tk, 'l, 'r) externals \<Rightarrow> 'x input_file \<Rightarrow> (unit, ('m, 'tk, 'r) state) prog" where
  "Reader_fit ext X = bindS fit_guard (\<lambda>_. fit_train ext X)"

text \<open>Lines 557--560 of \<^verbatim>\<open>Reader.evaluate\<close>: the checkpoints to evaluate.\<close>

definition checkpoint_list ::
  "('x, 'ex, 'm, 'tk, 'l, 'r) externals \<Rightarrow> (string option list, ('m, 'tk, 'r) state) prog" where
  "checkpoint_list ext s =
     (if eval_all_checkpoints (args s) then
        (case require_path (output_dir (args s)) of
           Inl e \<Rightarrow> (Inl e, s)
         | Inr dir \<Rightarrow> (Inr (map (\<lambda>c. Some (os_path_dirname c)) (glob_weights ext dir (fs s))), s))
      else (Inr [output_dir (args s)], s))"

text \<open>
  Lines 564--574: the loop over the checkpoints.  \<open>multi\<close> is \<^verbatim>\<open>len(checkpoints) > 1\<close>;
  \<^verbatim>\<open>split\<close> never gives an empty list, so \<^verbatim>\<open>[-1]\<close> is its last piece.
\<close>

fun eval_checkpoints ::
  "('x, 'ex, 'm, 'tk, 'l, 'r) externals \<Rightarrow> 'x input_file \<Rightarrow> bool \<Rightarrow> string option list \<Rightarrow>
   (string \<times> 'r) list \<Rightarrow> ((string \<times> 'r) list, ('m, 'tk, 'r) state) prog" where
  "eval_checkpoints ext X multi [] results = returnS results"
| "eval_checkpoints ext X multi (checkpoint # rest) results =
     bindS (liftE (if multi then
                     (case checkpoint of
                        None \<Rightarrow> Inl (AttributeError ''NoneType object has no attribute split'')
                      | Some c \<Rightarrow> Inr (last (split_on CHR ''-'' c)))
                   else Inr [])) (\<lambda>global_step.
     bindS (call_fs (FromPretrained checkpoint) (from_pretrained ext checkpoint)) (\<lambda>m.
     bindS (\<lambda>s. (Inr (), s\<lparr>args := (args s)\<lparr>model := m\<rparr>\<rparr>)) (\<lambda>_.
     bindS (\<lambda>s. evaluate ext X (model (args s)) (tokenizer (args s)) global_step s) (\<lambda>result.
     let result' = dict_update []
           (map (\<lambda>(k, v). (k @ (if global_step \<noteq> [] then ''_'' @ global_step else []), v)) result) in
     eval_checkpoints ext X multi rest (dict_update results result')))))"

text \<open>\<^verbatim>\<open>Reader.evaluate(X)\<close>, lines 552--578.\<close>

definition Reader_evaluate ::
  "('x, 'ex, 'm, 'tk, 'l, 'r) externals \<Rightarrow> 'x input_file \<Rightarrow>
   ((string \<times> 'r) list, ('m, 'tk, 'r) state) prog" where
  "Reader_evaluate ext X s =
     (if local_rank (args s) \<in> {- 1, 0} then
        bindS (checkpoint_list ext) (\<lambda>checkpoints.
        eval_checkpoints ext X (1 < length checkpoints) checkpoints []) s
      else (Inr [], s))"

text \<open>\<^verbatim>\<open>Reader.predict(X)\<close>, lines 580--584.\<close>

definition Reader_predict ::
  "('x, 'ex, 'm, 'tk, 'l, 'r) externals \<Rightarrow> 'x input_file \<Rightarrow>
   (pyval \<times> pyval, ('m, 'tk, 'r) state) prog" where
  "Reader_predict ext X =
     bindS (\<lambda>s. predict ext X (model (args s)) (tokenizer (args s)) [] s) (\<lambda>returned.
     bindS (liftE (unpack2 returned)) (\<lambda>(out_eval, final_prediction).
     returnS (out_eval, final_prediction)))"

section \<open>Reading the trace\<close>

text \<open>The events a call adds to the trace.\<close>

definition events_of :: "('a, ('m, 'tk, 'r) state) prog \<Rightarrow> ('m, 'tk, 'r) state \<Rightarrow> event list" where
  "events_of m s = drop (length (trace s)) (trace (snd (m s)))"

text \<open>
  \<open>grows P s s'\<close>: the trace of \<open>s'\<close> is the trace of \<open>s\<close> followed by events that all
  satisfy \<open>P\<close>, and the reader is the same but for \<^verbatim>\<open>eval_batch_size\<close>.
  \<open>setup_event\<close> holds of what is done up to the last model call; \<open>not_load\<close> holds
  of every event but a \<^verbatim>\<open>torch.load\<close>.
\<close>

definition grows :: "(event \<Rightarrow> bool) \<Rightarrow> ('m, 'tk, 'r) state \<Rightarrow> ('m, 'tk, 'r) state \<Rightarrow> bool" where
  "grows P s s' =
     ((\<exists>evs. trace s' = trace s @ evs \<and> list_all P evs)
      \<and> (args s')\<lparr>eval_batch_size := None\<rparr> = (args s)\<lparr>eval_batch_size := None\<rparr>)"

definition setup_event :: "event \<Rightarrow> bool" where
  "setup_event ev =
     (case ev of
        ReadSquadExamples \<Rightarrow> True
      | ConvertExamplesToFeatures \<Rightarrow> True
      | TorchSave p \<Rightarrow> True
      | Makedirs p \<Rightarrow> True
      | ModelCall inputs \<Rightarrow> True
      | _ \<Rightarrow> False)"

definition not_load :: "event \<Rightarrow> bool" where
  "not_load ev = (case ev of TorchLoad p \<Rightarrow> False | _ \<Rightarrow> True)"

section \<open>A sample run\<close>

text \<open>
  One feature, a reader as \<^verbatim>\<open>Reader(model_type='bert', model_name_or_path='bert-base-uncased',
  output_dir='out', version_2_with_negative=False, overwrite_output_dir=False,
  overwrite_cache=False)\<close> leaves it on a machine without GPU, and external routines that
  succeed: both writers return the pair \<^verbatim>\<open>(out_eval, final_prediction)\<close> that line 375
  unpacks.  The concrete theorems below are evaluated on them.
\<close>

definition sample_feature :: feature where
  "sample_feature =
     \<lparr>unique_id = 1000000000, input_ids = [101, 2054, 102], input_mask = [1, 1, 0],
      segment_ids = [0, 1, 1], cls_index = 0, p_mask = [1, 0, 1],
      start_position = None, end_position = None\<rparr>"

definition sample_written :: pyval where
  "sample_written = PyTuple [PyDict [(''exact'', PyNum 1)], PyStr ''January 2016'']"

definition sample_externals :: "(unit, nat, nat, unit, int list, int) externals" where
  "sample_externals =
     \<lparr>read_squad_examples = (\<lambda>input_file is_training v2 f. Inr [0]),
      convert_examples_to_features =
        (\<lambda>examples tok msl stride mql is_training.
           Inr [if is_training
                then sample_feature\<lparr>start_position := Some 1, end_position := Some 1\<rparr>
                else sample_feature]),
      write_predictions = (\<lambda>examples features results nb ml lc pf nf nof vl v2 th f. (Inr sample_written, f)),
      write_predictions_extended =
        (\<lambda>examples features results nb ml pf nf nof orig sn en v2 tok vl f. (Inr sample_written, f)),
      evaluate_on_squad = (\<lambda>input_file pf nof f. Inr [(''exact'', 1), (''f1'', 1)]),
      distributed_sampler = (\<lambda>n. Inr [0..<n]),
      model_forward = (\<lambda>m inputs. Inr [[[5, 1, 0]], [[0, 7, 0]], [[1]], [[1]], [[0]]]),
      from_pretrained = (\<lambda>checkpoint f. Inr 1),
      start_n_top = (\<lambda>m. 5),
      end_n_top = (\<lambda>m. 5),
      glob_weights = (\<lambda>dir f. []),
      get_rank = Inr 0,
      save_pretrained = (\<lambda>m tok dir f. (Inr (), f)),
      torch_save_params = (\<lambda>p f. (Inr (), f)),
      train = (\<lambda>ds m tok s. (Inr (1, 0), s))\<rparr>"

definition sample_reader :: "(nat, unit, int) reader" where
  "sample_reader =
     \<lparr>model_type = ''bert'', model_name_or_path = ''bert-base-uncased'',
      output_dir = Some ''out'', version_2_with_negative = False,
      null_score_diff_threshold = 0, max_seq_length = 384, doc_stride = 128,
      max_query_length = 64, do_lower_case = True, per_gpu_eval_batch_size = 8,
      n_best_size = 20, max_answer_length = 30, verbose_logging = True,
      eval_all_checkpoints = True, overwrite_output_dir = False, overwrite_cache = False,
      local_rank = - 1, n_gpu = 0, eval_batch_size = None, model = 0, tokenizer = ()\<rparr>"

definition sample_state :: "filesystem \<Rightarrow> (nat, unit, int) state" where
  "sample_state f = \<lparr>args = sample_reader, fs = f, trace = []\<rparr>"

section \<open>Properties\<close>

lemmas prog_defs =
  bindS_def returnS_def raiseS_def liftE_def emit_def call_fs_def call_fs_upd_def bindE_def

subsection \<open>\<^verbatim>\<open>Reader.evaluate\<close> on a process that is not the first\<close>

text \<open>
  Claim C9.  When \<^verbatim>\<open>local_rank\<close> is neither \<open>-1\<close> nor \<open>0\<close>, \<^verbatim>\<open>Reader.evaluate(X)\<close>
  returns the empty dictionary and leaves the state as it was: no checkpoint is loaded,
  no model is run, nothing is added to the trace.
\<close>

theorem Reader_evaluate_other_rank:
  assumes "local_rank (args s) \<notin> {- 1, 0}"
  shows "Reader_evaluate ext X s = (Inr [], s)"
  using assms by (simp add: Reader_evaluate_def)

theorem Reader_evaluate_other_rank_witness:
  "local_rank (args ((sample_state Map.empty)\<lparr>args := sample_reader\<lparr>local_rank := 1\<rparr>\<rparr>)) \<notin> {- 1, 0}
   \<and> Reader_evaluate sample_externals (DataInput ())
        ((sample_state Map.empty)\<lparr>args := sample_reader\<lparr>local_rank := 1\<rparr>\<rparr>)
      = (Inr [], (sample_state Map.empty)\<lparr>args := sample_reader\<lparr>local_rank := 1\<rparr>\<rparr>)"
  using Reader_evaluate_other_rank
    [of "(sample_state Map.empty)\<lparr>args := sample_reader\<lparr>local_rank := 1\<rparr>\<rparr>"
        sample_externals "DataInput ()"]
  by simp

subsection \<open>The check of the output directory in \<^verbatim>\<open>Reader.fit\<close>\<close>

lemma fit_guard_blocked:
  assumes "output_dir (args s) = Some d" "os_path_exists (fs s) d"
    "os_listdir (fs s) d = Inr names" "names \<noteq> []" "\<not> overwrite_output_dir (args s)"
  shows "fit_guard s = (Inl (ValueError (not_empty_message d)), s)"
  using assms by (simp add: fit_guard_def require_path_def)

lemma fit_guard_state: "snd (fit_guard s) = s"
  by (simp add: fit_guard_def split: sum.splits)

text \<open>
  Claim C5.  For a reader whose output directory is \<open>d\<close>: when \<open>d\<close> exists, lists at
  least one name and \<^verbatim>\<open>overwrite_output_dir\<close> is off, \<^verbatim>\<open>fit(X)\<close> raises the
  \<^verbatim>\<open>ValueError\<close> of line 528 in the state it was called in, so before any feature is
  read or computed and before any training; when \<open>d\<close> is absent, is empty, or
  overwriting is allowed, the check raises no \<^verbatim>\<open>ValueError\<close>, and when \<open>d\<close> is absent,
  an empty directory, or a directory that may be overwritten, \<^verbatim>\<open>fit(X)\<close> is the rest of
  the function.
\<close>

theorem fit_output_dir_check:
  assumes "output_dir (args s) = Some d"
  shows "(os_path_exists (fs s) d \<and> (\<exists>names. os_listdir (fs s) d = Inr names \<and> names \<noteq> [])
            \<and> \<not> overwrite_output_dir (args s)
          \<longrightarrow> Reader_fit ext X s = (Inl (ValueError (not_empty_message d)), s))
       \<and> (\<not> os_path_exists (fs s) d \<or> os_listdir (fs s) d = Inr [] \<or> overwrite_output_dir (args s)
          \<longrightarrow> (\<forall>m. fst (fit_guard s) \<noteq> Inl (ValueError m)))
       \<and> (\<not> os_path_exists (fs s) d \<or> os_listdir (fs s) d = Inr []
            \<or> (overwrite_output_dir (args s) \<and> (\<exists>names. os_listdir (fs s) d = Inr names))
          \<longrightarrow> Reader_fit ext X s = fit_train ext X s)"
proof (intro conjI impI)
  assume "os_path_exists (fs s) d \<and> (\<exists>names. os_listdir (fs s) d = Inr names \<and> names \<noteq> [])
            \<and> \<not> overwrite_output_dir (args s)"
  then obtain names where "os_path_exists (fs s) d" "os_listdir (fs s) d = Inr names"
    "names \<noteq> []" "\<not> overwrite_output_dir (args s)" by blast
  from fit_guard_blocked [OF assms this]
  show "Reader_fit ext X s = (Inl (ValueError (not_empty_message d)), s)"
    by (simp add: Reader_fit_def bindS_def)
next
  assume "\<not> os_path_exists (fs s) d \<or> os_listdir (fs s) d = Inr [] \<or> overwrite_output_dir (args s)"
  then show "\<forall>m. fst (fit_guard s) \<noteq> Inl (ValueError m)"
    using assms
    by (auto simp: fit_guard_def require_path_def os_listdir_def
             split: sum.splits option.splits node.splits)
next
  assume "\<not> os_path_exists (fs s) d \<or> os_listdir (fs s) d = Inr []
            \<or> (overwrite_output_dir (args s) \<and> (\<exists>names. os_listdir (fs s) d = Inr names))"
  then have "fit_guard s = (Inr (), s)"
    using assms by (auto simp: fit_guard_def require_path_def)
  then show "Reader_fit ext X s = fit_train ext X s"
    by (simp add: Reader_fit_def bindS_def)
qed

theorem fit_output_dir_check_witness:
  "Reader_fit sample_externals (DataInput ())
       (sample_state [''out'' \<mapsto> Dir [''checkpoint-50'']])
     = (Inl (ValueError (not_empty_message ''out'')),
        sample_state [''out'' \<mapsto> Dir [''checkpoint-50'']])
   \<and> (\<forall>m. fst (fit_guard (sample_state [''out'' \<mapsto> Dir []])) \<noteq> Inl (ValueError m))
   \<and> Reader_fit sample_externals (DataInput ()) (sample_state [''out'' \<mapsto> Dir []])
     = fit_train sample_externals (DataInput ()) (sample_state [''out'' \<mapsto> Dir []])"
  using
    fit_output_dir_check [of "sample_state [''out'' \<mapsto> Dir [''checkpoint-50'']]" "''out''"
      sample_externals "DataInput ()"]
    fit_output_dir_check [of "sample_state [''out'' \<mapsto> Dir []]" "''out''"
      sample_externals "DataInput ()"]
  by (simp add: sample_state_def sample_reader_def os_path_exists_def os_listdir_def)

subsection \<open>How the trace grows\<close>

lemma grows_events: "grows P s (snd (m s)) \<Longrightarrow> list_all P (events_of m s)"
  unfolding grows_def events_of_def by auto

lemma grows_reader:
  assumes "grows P s s'"
  shows "model_type (args s') = model_type (args s)"
    and "version_2_with_negative (args s') = version_2_with_negative (args s)"
    and "output_dir (args s') = output_dir (args s)"
proof -
  from assms have eq: "(args s')\<lparr>eval_batch_size := None\<rparr> = (args s)\<lparr>eval_batch_size := None\<rparr>"
    by (simp add: grows_def)
  from arg_cong [OF eq, of model_type] show "model_type (args s') = model_type (args s)"
    by simp
  from arg_cong [OF eq, of version_2_with_negative]
  show "version_2_with_negative (args s') = version_2_with_negative (args s)"
    by simp
  from arg_cong [OF eq, of output_dir] show "output_dir (args s') = output_dir (args s)"
    by simp
qed

lemma grows_same: "trace s' = trace s \<Longrightarrow> args s' = args s \<Longrightarrow> grows P s s'"
  by (simp add: grows_def)

lemma grows_refl [simp]: "grows P s s"
  by (simp add: grows_def)

lemma grows_trans:
  assumes "grows P s s'" "grows P s' s''"
  shows "grows P s s''"
  using assms unfolding grows_def by auto

lemma grows_mono:
  assumes "grows P s s'" "\<And>e. P e \<Longrightarrow> Q e"
  shows "grows Q s s'"
  using assms unfolding grows_def by (auto simp: list_all_iff)

lemma grows_returnS: "grows P s (snd (returnS x s))"
  by (simp add: grows_def returnS_def)

lemma grows_raiseS: "grows P s (snd (raiseS e s))"
  by (simp add: grows_def raiseS_def)

lemma grows_liftE: "grows P s (snd (liftE m s))"
  by (simp add: grows_def liftE_def)

lemma grows_emit: "P ev \<Longrightarrow> grows P s (snd (emit ev s))"
  by (simp add: grows_def emit_def)

lemma grows_bindS:
  assumes "grows P s (snd (m s))" "\<And>x s'. m s = (Inr x, s') \<Longrightarrow> grows P s' (snd (f x s'))"
  shows "grows P s (snd (bindS m f s))"
proof (cases "m s")
  case (Pair r s')
  show ?thesis
  proof (cases r)
    case (Inl e)
    with Pair assms(1) show ?thesis by (simp add: bindS_def)
  next
    case (Inr x)
    with Pair assms(1) have "grows P s s'" by simp
    moreover from assms(2) Pair Inr have "grows P s' (snd (f x s'))" by simp
    ultimately have "grows P s (snd (f x s'))" by (rule grows_trans)
    with Pair Inr show ?thesis by (simp add: bindS_def)
  qed
qed

lemma grows_call_fs: "P ev \<Longrightarrow> grows P s (snd (call_fs ev f s))"
  unfolding call_fs_def
  by (rule grows_bindS) (simp_all add: grows_emit grows_same)

lemma grows_call_fs_upd: "P ev \<Longrightarrow> grows P s (snd (call_fs_upd ev f s))"
  unfolding call_fs_upd_def
  by (rule grows_bindS) (simp_all add: grows_emit grows_same split: prod.splits)

lemma setup_event_simps [simp]:
  "setup_event ReadSquadExamples" "setup_event ConvertExamplesToFeatures"
  "setup_event (TorchSave p)" "setup_event (Makedirs p)" "setup_event (ModelCall k)"
  "\<not> setup_event (TorchLoad p)" "\<not> setup_event Train" "\<not> setup_event (FromPretrained c)"
  "\<not> setup_event (SavePretrained p)" "\<not> setup_event (WritePredictions a b c')"
  "\<not> setup_event (WritePredictionsExtended a b c')" "\<not> setup_event (EvaluateOnSquad a c')"
  by (simp_all add: setup_event_def)

lemma not_load_simps [simp]:
  "\<not> not_load (TorchLoad p)" "not_load (TorchSave p)" "not_load ReadSquadExamples"
  "not_load ConvertExamplesToFeatures" "not_load (Makedirs p)" "not_load Train"
  "not_load (FromPretrained c)" "not_load (SavePretrained p)" "not_load (ModelCall k)"
  "not_load (WritePredictions a b c')" "not_load (WritePredictionsExtended a b c')"
  "not_load (EvaluateOnSquad a c')"
  by (simp_all add: not_load_def)

lemma setup_event_not_load: "setup_event e \<Longrightarrow> not_load e"
  by (cases e) simp_all

lemmas grows_intros =
  grows_bindS grows_returnS grows_raiseS grows_liftE grows_call_fs grows_call_fs_upd grows_emit

lemma grows_torch_save: "grows setup_event s (snd (torch_save features p s))"
  unfolding torch_save_def by (rule grows_call_fs_upd) simp

lemma grows_os_makedirs: "grows setup_event s (snd (os_makedirs p s))"
  unfolding os_makedirs_def by (rule grows_call_fs_upd) simp

lemma grows_ensure_output_dir: "grows setup_event s (snd (ensure_output_dir s))"
  unfolding ensure_output_dir_def
  by (auto intro: grows_os_makedirs grows_same split: sum.splits)

lemma grows_load_features:
  assumes "\<not> (os_path_exists (fs s) c \<and> \<not> overwrite_cache (args s) \<and> \<not> oe)"
  shows "grows setup_event s (snd (load_features ext input_file tok ev oe c s))"
  using assms unfolding load_features_def
  by (auto intro!: grows_intros grows_torch_save)

lemma grows_load_and_cache_examples:
  "grows setup_event s (snd (load_and_cache_examples ext input_file tok ev True s))"
  unfolding load_and_cache_examples_def
  by (auto intro!: grows_intros grows_load_features split: option.splits)

lemma grows_run_batches:
  "grows setup_event s (snd (run_batches ext mk m ds features batches acc s))"
proof (induction batches arbitrary: acc s)
  case Nil
  show ?case by (simp add: grows_returnS)
next
  case (Cons idx rest)
  show ?case
    by (auto intro!: grows_intros Cons.IH)
qed

lemma grows_set_eval_batch_size: "grows P s (snd (set_eval_batch_size s))"
  by (simp add: set_eval_batch_size_def Let_def grows_def)

lemma grows_eval_sampler: "grows P s (snd (eval_sampler ext ds s))"
  by (simp add: eval_sampler_def grows_same)

lemma grows_run_model:
  "grows setup_event s (snd (run_model ext mk input_file m tok s))"
  unfolding run_model_def
  by (auto intro!: grows_intros grows_load_and_cache_examples grows_ensure_output_dir
        grows_run_batches grows_set_eval_batch_size grows_eval_sampler
      split: loaded.splits)

lemma grows_call_writer:
  "grows (\<lambda>e. e = WritePredictions pf nf nof \<or> e = WritePredictionsExtended pf nf nof) s
     (snd (call_writer ext input_file m tok examples features results pf nf nof s))"
  unfolding call_writer_def Let_def
  by (auto intro!: grows_intros)

text \<open>
  Every call of the writer that \<^verbatim>\<open>predict\<close> makes is given the path of a null-odds file,
  whether SQuAD 2.0 mode is on or off; every call that \<^verbatim>\<open>evaluate\<close> makes is given one
  exactly when the mode is on.
\<close>

lemma grows_predict:
  "grows (\<lambda>e. setup_event e
            \<or> (\<exists>pf nf nof. e = WritePredictions pf nf (Some nof)
                  \<or> e = WritePredictionsExtended pf nf (Some nof)))
     s (snd (predict ext input_file m tok prefix s))"
  unfolding predict_def Let_def
  by (rule grows_bindS, rule grows_mono [OF grows_run_model], simp)
     (auto intro!: grows_intros intro: grows_mono [OF grows_call_writer])

lemma grows_evaluate:
  "grows (\<lambda>e. setup_event e \<or> (\<exists>pf nof. e = EvaluateOnSquad pf nof)
            \<or> (\<exists>pf nf nof. (e = WritePredictions pf nf nof \<or> e = WritePredictionsExtended pf nf nof)
                  \<and> (nof = None) = (\<not> version_2_with_negative (args s))))
     s (snd (evaluate ext input_file m tok prefix s))"
proof (cases "run_model ext evaluate_inputs input_file m tok s")
  case (Pair r s1)
  let ?P = "\<lambda>e. setup_event e \<or> (\<exists>pf nof. e = EvaluateOnSquad pf nof)
            \<or> (\<exists>pf nf nof. (e = WritePredictions pf nf nof \<or> e = WritePredictionsExtended pf nf nof)
                  \<and> (nof = None) = (\<not> version_2_with_negative (args s)))"
  from grows_run_model [of s ext evaluate_inputs input_file m tok] Pair
  have g1: "grows setup_event s s1" by simp
  then have g1': "grows ?P s s1" by (rule grows_mono) simp
  show ?thesis
  proof (cases r)
    case (Inl e)
    with Pair g1' show ?thesis by (simp add: evaluate_def bindS_def)
  next
    case (Inr x)
    obtain examples features results where x: "x = (examples, features, results)"
      by (cases x) auto
    have v2: "version_2_with_negative (args s1) = version_2_with_negative (args s)"
      using g1 by (rule grows_reader)
    have "grows ?P s1 (snd (evaluate ext input_file m tok prefix s))"
      using Pair Inr x v2
      by (auto simp: evaluate_def bindS_def [of "run_model ext evaluate_inputs input_file m tok"]
                 Let_def liftE_def returnS_def
               intro!: grows_intros intro: grows_mono [OF grows_call_writer]
               split: sum.splits)
    with g1' show ?thesis by (rule grows_trans)
  qed
qed

lemma evaluate_not_load: "grows not_load s (snd (evaluate ext input_file m tok prefix s))"
  by (rule grows_mono [OF grows_evaluate]) (auto simp: setup_event_not_load)

lemma predict_not_load: "grows not_load s (snd (predict ext input_file m tok prefix s))"
  by (rule grows_mono [OF grows_predict]) (auto simp: setup_event_not_load)

subsection \<open>The cache of \<^verbatim>\<open>load_and_cache_examples\<close>\<close>

lemma not_load_set: "list_all not_load evs \<Longrightarrow> TorchLoad p \<notin> set evs"
  by (auto simp: list_all_iff)

lemma events_of_Inl:
  "m s = (r, s) \<Longrightarrow> events_of m s = []"
  by (simp add: events_of_def)

lemma lce_cache_branch:
  assumes "cached_features_file input_file (args s) ev = Inr c" "os_path_exists (fs s) c"
    "\<not> overwrite_cache (args s)"
  shows "load_and_cache_examples ext input_file tok ev False s =
           (bindE (fst (torch_load c s)) (\<lambda>features.
            bindE (build_dataset ev features) (\<lambda>dataset. Inr (DatasetOnly dataset))),
            s\<lparr>trace := trace s @ [TorchLoad c]\<rparr>)"
  using assms
  by (simp add: load_and_cache_examples_def load_features_def torch_load_def prog_defs
           split: option.splits node.splits sum.splits)

lemma grows_top: "grows P s s' \<Longrightarrow> grows (\<lambda>e. True) s s'"
  by (rule grows_mono) simp_all

lemma event_after_call_fs:
  assumes "\<And>x s'. grows (\<lambda>e. True) s' (snd (g x s'))"
  shows "ev \<in> set (events_of (bindS (call_fs ev f) g) s)"
proof (cases "f (fs s)")
  case (Inl e)
  then show ?thesis by (simp add: events_of_def prog_defs)
next
  case (Inr x)
  from assms [of "s\<lparr>trace := trace s @ [ev]\<rparr>" x]
  obtain evs where "trace (snd (g x (s\<lparr>trace := trace s @ [ev]\<rparr>))) = trace s @ ev # evs"
    unfolding grows_def by auto
  with Inr show ?thesis by (simp add: events_of_def prog_defs)
qed

lemma event_kept_bindS:
  assumes "ev \<in> set (events_of m s)" "grows (\<lambda>e. True) s (snd (m s))"
    "\<And>x s'. grows (\<lambda>e. True) s' (snd (f x s'))"
  shows "ev \<in> set (events_of (bindS m f) s)"
proof (cases "m s")
  case (Pair r s')
  from assms(2) Pair obtain evs where evs: "trace s' = trace s @ evs"
    unfolding grows_def by auto
  with assms(1) Pair have mem: "ev \<in> set evs" by (simp add: events_of_def)
  show ?thesis
  proof (cases r)
    case (Inl e)
    with Pair assms(1) show ?thesis by (simp add: events_of_def bindS_def)
  next
    case (Inr x)
    from assms(3) [of s' x] obtain evs' where "trace (snd (f x s')) = trace s' @ evs'"
      unfolding grows_def by auto
    with Pair Inr evs mem show ?thesis by (simp add: events_of_def bindS_def)
  qed
qed

lemma load_features_recomputes:
  assumes "\<not> (os_path_exists (fs s) c \<and> \<not> overwrite_cache (args s) \<and> \<not> oe)"
  shows "ReadSquadExamples \<in> set (events_of (load_features ext input_file tok ev oe c) s)"
proof -
  have "load_features ext input_file tok ev oe c s =
        bindS (call_fs ReadSquadExamples
                 (read_squad_examples ext input_file (\<not> ev)
                    (version_2_with_negative (args s)))) (\<lambda>examples.
        bindS (bindS (emit ConvertExamplesToFeatures) (\<lambda>_.
                 liftE (convert_examples_to_features ext examples tok
                    (max_seq_length (args s)) (doc_stride (args s))
                    (max_query_length (args s)) (\<not> ev)))) (\<lambda>features.
        bindS (if local_rank (args s) \<in> {- 1, 0} then torch_save features c
               else returnS ()) (\<lambda>_.
        returnS (Some examples, features)))) s"
    using assms by (auto simp: load_features_def)
  moreover have "ReadSquadExamples \<in> set (events_of (bindS (call_fs ReadSquadExamples
                 (read_squad_examples ext input_file (\<not> ev)
                    (version_2_with_negative (args s)))) (\<lambda>examples.
        bindS (bindS (emit ConvertExamplesToFeatures) (\<lambda>_.
                 liftE (convert_examples_to_features ext examples tok
                    (max_seq_length (args s)) (doc_stride (args s))
                    (max_query_length (args s)) (\<not> ev)))) (\<lambda>features.
        bindS (if local_rank (args s) \<in> {- 1, 0} then torch_save features c
               else returnS ()) (\<lambda>_.
        returnS (Some examples, features))))) s)"
    by (rule event_after_call_fs) (auto intro!: grows_intros grows_top [OF grows_torch_save])
  ultimately show ?thesis by (simp add: events_of_def)
qed

lemma lce_recomputes:
  assumes "cached_features_file input_file (args s) ev = Inr c"
    "\<not> (os_path_exists (fs s) c \<and> \<not> overwrite_cache (args s) \<and> \<not> oe)"
  shows "ReadSquadExamples \<in> set (events_of (load_and_cache_examples ext input_file tok ev oe) s)"
proof -
  have eq: "load_and_cache_examples ext input_file tok ev oe s =
     bindS (load_features ext input_file tok ev oe c)
       (\<lambda>(examples, features).
     bindS (liftE (build_dataset ev features)) (\<lambda>dataset.
     if oe then
       (case examples of
          None \<Rightarrow> raiseS (UnboundLocalError ''examples'')
        | Some exs \<Rightarrow> returnS (WithExamples dataset exs features))
     else returnS (DatasetOnly dataset))) s"
    using assms(1) by (simp add: load_and_cache_examples_def bindS_def liftE_def)
  have "ReadSquadExamples \<in> set (events_of (bindS (load_features ext input_file tok ev oe c)
       (\<lambda>(examples, features).
     bindS (liftE (build_dataset ev features)) (\<lambda>dataset.
     if oe then
       (case examples of
          None \<Rightarrow> raiseS (UnboundLocalError ''examples'')
        | Some exs \<Rightarrow> returnS (WithExamples dataset exs features))
     else returnS (DatasetOnly dataset)))) s)"
    by (rule event_kept_bindS [OF load_features_recomputes [OF assms(2)]
              grows_top [OF grows_load_features [OF assms(2)]]])
       (auto intro!: grows_intros split: option.splits)
  with eq show ?thesis by (simp add: events_of_def)
qed

lemma lce_no_events_without_name:
  assumes "cached_features_file input_file (args s) ev = Inl e"
  shows "events_of (load_and_cache_examples ext input_file tok ev oe) s = []"
  using assms by (simp add: load_and_cache_examples_def events_of_def bindS_def liftE_def)

lemma lce_not_load:
  assumes "cached_features_file input_file (args s) ev = Inr c"
    "\<not> (os_path_exists (fs s) c \<and> \<not> overwrite_cache (args s) \<and> \<not> oe)"
  shows "grows not_load s (snd (load_and_cache_examples ext input_file tok ev oe s))"
  using assms unfolding load_and_cache_examples_def
  by (auto intro!: grows_intros grows_mono [OF grows_load_features] setup_event_not_load
           split: option.splits simp: liftE_def)

lemma lce_reads_cache_iff:
  "TorchLoad p \<in> set (events_of (load_and_cache_examples ext input_file tok ev oe) s) \<longleftrightarrow>
     cached_features_file input_file (args s) ev = Inr p \<and> os_path_exists (fs s) p
     \<and> \<not> overwrite_cache (args s) \<and> \<not> oe"
proof (cases "cached_features_file input_file (args s) ev")
  case (Inl e)
  then show ?thesis by (simp add: lce_no_events_without_name)
next
  case (Inr c)
  show ?thesis
  proof (cases "os_path_exists (fs s) c \<and> \<not> overwrite_cache (args s) \<and> \<not> oe")
    case True
    with Inr lce_cache_branch [of input_file s ev c ext tok]
    show ?thesis by (auto simp: events_of_def)
  next
    case False
    have "list_all not_load (events_of (load_and_cache_examples ext input_file tok ev oe) s)"
      by (rule grows_events, rule lce_not_load [OF Inr False])
    then have "TorchLoad p \<notin> set (events_of (load_and_cache_examples ext input_file tok ev oe) s)"
      by (rule not_load_set)
    with Inr False show ?thesis by auto
  qed
qed

lemma sample_cached_train:
  "cached_features_file (DataInput ()) sample_reader False = Inr ''cached_train_bert-base-uncased_384''"
  by code_simp

text \<open>
  Claim C10.  A call of \<^verbatim>\<open>load_and_cache_examples\<close> with \<^verbatim>\<open>output_examples=True\<close> never
  calls \<^verbatim>\<open>torch.load\<close>, whatever the file system holds and whatever \<^verbatim>\<open>overwrite_cache\<close>
  is, and neither do \<^verbatim>\<open>evaluate\<close> and \<^verbatim>\<open>predict\<close>, which call it that way; such a call
  reads the source data whenever the name of the cache file can be built.  A call reads
  the cache exactly when the cache file exists, \<^verbatim>\<open>overwrite_cache\<close> is off and
  \<^verbatim>\<open>output_examples\<close> is off.
\<close>

theorem cache_not_read_with_examples:
  "(\<forall>p. TorchLoad p \<notin> set (events_of (load_and_cache_examples ext input_file tok ev True) s))
   \<and> (\<forall>p. TorchLoad p \<notin> set (events_of (evaluate ext input_file m tok prefix) s))
   \<and> (\<forall>p. TorchLoad p \<notin> set (events_of (predict ext input_file m tok prefix) s))
   \<and> ((\<exists>c. cached_features_file input_file (args s) ev = Inr c)
        = (ReadSquadExamples \<in> set (events_of (load_and_cache_examples ext input_file tok ev True) s)))
   \<and> ((TorchLoad p \<in> set (events_of (load_and_cache_examples ext input_file tok ev oe) s))
        = (cached_features_file input_file (args s) ev = Inr p \<and> os_path_exists (fs s) p
           \<and> \<not> overwrite_cache (args s) \<and> \<not> oe))"
proof (intro conjI allI)
  fix p
  show "TorchLoad p \<notin> set (events_of (load_and_cache_examples ext input_file tok ev True) s)"
    by (simp add: lce_reads_cache_iff)
  show "TorchLoad p \<notin> set (events_of (evaluate ext input_file m tok prefix) s)"
    by (rule not_load_set, rule grows_events, rule evaluate_not_load)
  show "TorchLoad p \<notin> set (events_of (predict ext input_file m tok prefix) s)"
    by (rule not_load_set, rule grows_events, rule predict_not_load)
next
  show "(\<exists>c. cached_features_file input_file (args s) ev = Inr c)
        = (ReadSquadExamples \<in> set (events_of (load_and_cache_examples ext input_file tok ev True) s))"
  proof (cases "cached_features_file input_file (args s) ev")
    case (Inl e)
    then show ?thesis by (simp add: lce_no_events_without_name)
  next
    case (Inr c)
    with lce_recomputes [of input_file s ev c True ext tok] show ?thesis by simp
  qed
next
  show "(TorchLoad p \<in> set (events_of (load_and_cache_examples ext input_file tok ev oe) s))
        = (cached_features_file input_file (args s) ev = Inr p \<and> os_path_exists (fs s) p
           \<and> \<not> overwrite_cache (args s) \<and> \<not> oe)"
    by (rule lce_reads_cache_iff)
qed

theorem cache_not_read_with_examples_witness:
  "TorchLoad ''cached_train_bert-base-uncased_384'' \<notin> set (events_of
       (load_and_cache_examples sample_externals (DataInput ()) () False True)
       (sample_state [''cached_train_bert-base-uncased_384'' \<mapsto> FeaturesFile []]))
   \<and> TorchLoad ''cached_train_bert-base-uncased_384'' \<in> set (events_of
       (load_and_cache_examples sample_externals (DataInput ()) () False False)
       (sample_state [''cached_train_bert-base-uncased_384'' \<mapsto> FeaturesFile []]))"
  using
    cache_not_read_with_examples [of sample_externals "DataInput ()" "()" False
      "sample_state [''cached_train_bert-base-uncased_384'' \<mapsto> FeaturesFile []]" 0 "[]"
      "''cached_train_bert-base-uncased_384''" False]
    sample_cached_train
  by (simp add: sample_state_def os_path_exists_def sample_reader_def)

text \<open>
  Claim C4, as amended.  When the cache file exists, \<^verbatim>\<open>overwrite_cache\<close> is off and
  \<^verbatim>\<open>output_examples\<close> is off, a failure of \<^verbatim>\<open>torch.load\<close> on the cache file is fatal:
  \<^verbatim>\<open>load_and_cache_examples\<close> raises the same exception, and the only call it has made
  is the \<^verbatim>\<open>torch.load\<close>; the features are not recomputed.
\<close>

theorem cache_read_failure_propagates:
  assumes "cached_features_file input_file (args s) ev = Inr c"
    and "os_path_exists (fs s) c"
    and "\<not> overwrite_cache (args s)"
    and "fst (torch_load c s) = Inl e"
  shows "load_and_cache_examples ext input_file tok ev False s
           = (Inl e, s\<lparr>trace := trace s @ [TorchLoad c]\<rparr>)"
  using lce_cache_branch [OF assms(1-3)] assms(4) by (simp add: bindE_def)

theorem cache_read_failure_propagates_witness:
  "load_and_cache_examples sample_externals (DataInput ()) () False False
      (sample_state [''cached_train_bert-base-uncased_384'' \<mapsto> OtherFile])
     = (Inl (UnpicklingError ''cached_train_bert-base-uncased_384''),
        (sample_state [''cached_train_bert-base-uncased_384'' \<mapsto> OtherFile])
          \<lparr>trace := [TorchLoad ''cached_train_bert-base-uncased_384'']\<rparr>)"
  using cache_read_failure_propagates
      [of "DataInput ()" "sample_state [''cached_train_bert-base-uncased_384'' \<mapsto> OtherFile]"
          False "''cached_train_bert-base-uncased_384''"
          "UnpicklingError ''cached_train_bert-base-uncased_384''" sample_externals "()"]
    sample_cached_train
  by (simp add: sample_state_def os_path_exists_def sample_reader_def torch_load_def prog_defs)

text \<open>
  The claim as stated fails: with an unreadable cache file the sample call raises and
  never reads the source data, although the same call without a cache file succeeds.
\<close>

theorem cache_read_failure_counterexample:
  "fst (load_and_cache_examples sample_externals (DataInput ()) () False False
          (sample_state [''cached_train_bert-base-uncased_384'' \<mapsto> OtherFile]))
     = Inl (UnpicklingError ''cached_train_bert-base-uncased_384'')
   \<and> ReadSquadExamples \<notin> set (events_of
          (load_and_cache_examples sample_externals (DataInput ()) () False False)
          (sample_state [''cached_train_bert-base-uncased_384'' \<mapsto> OtherFile]))
   \<and> fst (load_and_cache_examples sample_externals (DataInput ()) () False False
          (sample_state Map.empty))
     = Inr (DatasetOnly
         [Tensor Long [Row [101, 2054, 102]], Tensor Long [Row [1, 1, 0]],
          Tensor Long [Row [0, 1, 1]], Tensor Long [Scalar 1], Tensor Long [Scalar 1],
          Tensor Long [Scalar 0], Tensor Float [Row [1, 0, 1]]])"
  by code_simp

subsection \<open>The arguments of the model call\<close>

text \<open>
  What the two functions pass to the model for a batch of six tensors, and for a batch
  drawn from the dataset that \<^verbatim>\<open>load_and_cache_examples\<close> builds for evaluation.
\<close>

lemma evaluate_inputs_layout:
  "evaluate_inputs mt [ids, msk, seg, ex, cls, pm] =
     Inr ([(''input_ids'', Some ids), (''attention_mask'', Some msk),
           (''token_type_ids'', if mt = ''xlm'' then None else Some seg)]
          @ (if extended_model mt then [(''cls_index'', Some cls), (''p_mask'', Some pm)] else []),
          ex)"
  by (simp add: evaluate_inputs_def update_extended_def tuple_get_def bindE_def
        dict_update_def dict_set_def)

lemma predict_inputs_layout:
  "predict_inputs mt [ids, msk, seg, ex, cls, pm] =
     Inr ([(''input_ids'', Some ids),
           (''token_type_ids'', if mt = ''xlm'' then None else Some msk),
           (''attention_mask'', Some seg)]
          @ (if extended_model mt then [(''cls_index'', Some cls), (''p_mask'', Some pm)] else []),
          ex)"
  by (simp add: predict_inputs_def update_extended_def tuple_get_def bindE_def
        dict_update_def dict_set_def)

lemma build_dataset_layout:
  assumes "build_dataset True features = Inr ds"
  shows "ds = [Tensor Long (map (\<lambda>f. Row (input_ids f)) features),
               Tensor Long (map (\<lambda>f. Row (input_mask f)) features),
               Tensor Long (map (\<lambda>f. Row (segment_ids f)) features),
               torch_arange (length features),
               Tensor Long (map (\<lambda>f. Scalar (cls_index f)) features),
               Tensor Float (map (\<lambda>f. Row (p_mask f)) features)]"
  using assms
  by (auto simp: build_dataset_def bindE_def torch_tensor_rows_def torch_tensor_scalars_def
        Let_def comp_def split: sum.splits if_splits)

lemma gather_map:
  "gather idx (Tensor dt (map g xs)) = Inr t \<Longrightarrow> t = Tensor dt (map (\<lambda>i. g (xs ! i)) idx)"
  by (auto simp: gather_def list_all_iff split: if_splits)

lemma collate_layout:
  assumes "build_dataset True features = Inr ds" "collate ds idx = Inr b"
  shows "b = [Tensor Long (map (\<lambda>i. Row (input_ids (features ! i))) idx),
              Tensor Long (map (\<lambda>i. Row (input_mask (features ! i))) idx),
              Tensor Long (map (\<lambda>i. Row (segment_ids (features ! i))) idx),
              Tensor Long (map (\<lambda>i. Scalar (int i)) idx),
              Tensor Long (map (\<lambda>i. Scalar (cls_index (features ! i))) idx),
              Tensor Float (map (\<lambda>i. Row (p_mask (features ! i))) idx)]"
  using assms(2) unfolding build_dataset_layout [OF assms(1)]
  by (auto simp: collate_def bindE_def torch_arange_def gather_def list_all_iff
           split: sum.splits if_splits)

lemma predict_inputs_on_dataset:
  assumes "build_dataset True features = Inr ds" "collate ds idx = Inr b"
    "predict_inputs mt b = Inr (inputs, ex)"
  shows "map_of inputs ''attention_mask''
           = Some (Some (Tensor Long (map (\<lambda>i. Row (segment_ids (features ! i))) idx)))
       \<and> map_of inputs ''token_type_ids''
           = Some (if mt = ''xlm'' then None
                   else Some (Tensor Long (map (\<lambda>i. Row (input_mask (features ! i))) idx)))"
  using assms(3) unfolding collate_layout [OF assms(1,2)] predict_inputs_layout by auto

lemma evaluate_inputs_on_dataset:
  assumes "build_dataset True features = Inr ds" "collate ds idx = Inr b"
    "evaluate_inputs mt b = Inr (inputs, ex)"
  shows "map_of inputs ''attention_mask''
           = Some (Some (Tensor Long (map (\<lambda>i. Row (input_mask (features ! i))) idx)))
       \<and> map_of inputs ''token_type_ids''
           = Some (if mt = ''xlm'' then None
                   else Some (Tensor Long (map (\<lambda>i. Row (segment_ids (features ! i))) idx)))"
  using assms(3) unfolding collate_layout [OF assms(1,2)] evaluate_inputs_layout by auto

text \<open>
  Claim C2 does not hold of \<^verbatim>\<open>predict\<close>.  On the sample run, \<^verbatim>\<open>predict\<close> calls the model
  with \<^verbatim>\<open>token_type_ids\<close> bound to the input mask and \<^verbatim>\<open>attention_mask\<close> bound to the
  segment ids, while \<^verbatim>\<open>evaluate\<close> calls it with \<^verbatim>\<open>attention_mask\<close> bound to the input
  mask and \<^verbatim>\<open>token_type_ids\<close> bound to the segment ids; the two tensors differ.
\<close>

theorem predict_swaps_mask_and_segment_ids:
  "ModelCall [(''input_ids'', Some (Tensor Long [Row (input_ids sample_feature)])),
              (''token_type_ids'', Some (Tensor Long [Row (input_mask sample_feature)])),
              (''attention_mask'', Some (Tensor Long [Row (segment_ids sample_feature)]))]
     \<in> set (events_of (predict sample_externals (DataInput ()) 0 () [])
               (sample_state [''out'' \<mapsto> Dir []]))
   \<and> ModelCall [(''input_ids'', Some (Tensor Long [Row (input_ids sample_feature)])),
                (''attention_mask'', Some (Tensor Long [Row (input_mask sample_feature)])),
                (''token_type_ids'', Some (Tensor Long [Row (segment_ids sample_feature)]))]
     \<in> set (events_of (evaluate sample_externals (DataInput ()) 0 () [])
               (sample_state [''out'' \<mapsto> Dir []]))
   \<and> input_mask sample_feature \<noteq> segment_ids sample_feature"
  by code_simp

subsection \<open>The null-odds file\<close>

text \<open>
  Claim C6 does not hold of \<^verbatim>\<open>predict\<close>.  On the sample run SQuAD 2.0 mode is off;
  \<^verbatim>\<open>predict\<close> still gives the writer the path of a null-odds file, while \<^verbatim>\<open>evaluate\<close>
  gives it \<^verbatim>\<open>None\<close>.
\<close>

theorem predict_always_names_null_odds_file:
  "\<not> version_2_with_negative (args (sample_state [''out'' \<mapsto> Dir []]))
   \<and> WritePredictions ''out/predictions_.json'' ''out/nbest_predictions_.json''
        (Some ''out/null_odds_.json'')
     \<in> set (events_of (predict sample_externals (DataInput ()) 0 () [])
               (sample_state [''out'' \<mapsto> Dir []]))
   \<and> WritePredictions ''out/predictions_.json'' ''out/nbest_predictions_.json'' None
     \<in> set (events_of (evaluate sample_externals (DataInput ()) 0 () [])
               (sample_state [''out'' \<mapsto> Dir []]))"
  by code_simp

subsection \<open>What \<^verbatim>\<open>Reader.predict\<close> returns\<close>

text \<open>
  \<^verbatim>\<open>Reader.predict\<close> unpacks whatever \<^verbatim>\<open>predict\<close> returns.  For an extended model type,
  what \<^verbatim>\<open>predict\<close> returns is the second of the two values a pair was unpacked into:
  the first one, \<^verbatim>\<open>out_eval\<close>, is dropped.
\<close>

lemma Reader_predict_unpacks:
  "Reader_predict ext X s =
     (case predict ext X (model (args s)) (tokenizer (args s)) [] s of
        (Inl e, s') \<Rightarrow> (Inl e, s')
      | (Inr returned, s') \<Rightarrow> (unpack2 returned, s'))"
  by (auto simp: Reader_predict_def prog_defs split: prod.splits sum.splits)

lemma call_writer_reader:
  "args (snd (call_writer ext input_file m tok examples features results pf nf nof s)) = args s"
  by (simp add: call_writer_def Let_def prog_defs split: prod.splits sum.splits)

lemma predict_extended_result:
  assumes "extended_model (model_type (args s))"
    and "fst (predict ext input_file m tok prefix s) = Inr v"
  shows "\<exists>written out_eval. unpack2 written = Inr (out_eval, v)"
proof (cases "run_model ext predict_inputs input_file m tok s")
  case (Pair r s1)
  from grows_run_model [of s ext predict_inputs input_file m tok] Pair
  have "grows setup_event s s1" by simp
  then have mt: "model_type (args s1) = model_type (args s)" by (rule grows_reader)
  show ?thesis
  proof (cases r)
    case (Inl e)
    with Pair assms(2) show ?thesis by (simp add: predict_def bindS_def)
  next
    case (Inr x)
    obtain examples features results where x: "x = (examples, features, results)"
      by (cases x) auto
    show ?thesis
    proof (cases "require_path (output_dir (args s1))")
      case (Inl e)
      with Pair Inr x assms(2) show ?thesis
        by (simp add: predict_def bindS_def liftE_def)
    next
      case dir: (Inr d)
      obtain w s2 where w: "call_writer ext input_file m tok examples features results
          (output_file d ''predictions'' prefix) (output_file d ''nbest_predictions'' prefix)
          (Some (output_file d ''null_odds'' prefix)) s1 = (w, s2)"
        by (cases "call_writer ext input_file m tok examples features results
          (output_file d ''predictions'' prefix) (output_file d ''nbest_predictions'' prefix)
          (Some (output_file d ''null_odds'' prefix)) s1") auto
      from call_writer_reader [of ext input_file m tok examples features results
          "output_file d ''predictions'' prefix" "output_file d ''nbest_predictions'' prefix"
          "Some (output_file d ''null_odds'' prefix)" s1] w
      have "args s2 = args s1" by simp
      with mt assms(1) have ext2: "extended_model (model_type (args s2))" by simp
      from Pair Inr x dir w ext2 assms(2) show ?thesis
        by (auto simp: predict_def bindS_def liftE_def returnS_def Let_def
                 split: sum.splits prod.splits)
    qed
  qed
qed

text \<open>
  Claim C1 does not hold for the extended model types.  On the sample run both writers
  return the pair \<^verbatim>\<open>(out_eval, final_prediction)\<close>.  With \<^verbatim>\<open>model_type = 'xlnet'\<close> the
  function \<^verbatim>\<open>predict\<close> returns the final prediction alone, a string and not a pair, and
  \<^verbatim>\<open>Reader.predict\<close> raises \<^verbatim>\<open>ValueError\<close> when it unpacks it; with \<^verbatim>\<open>model_type =
  'bert'\<close> the pair comes back whole.
\<close>

theorem Reader_predict_unpacks_final_prediction:
  "fst (predict sample_externals (DataInput ()) 0 () []
          ((sample_state [''out'' \<mapsto> Dir []])\<lparr>args := sample_reader\<lparr>model_type := ''xlnet''\<rparr>\<rparr>))
     = Inr (PyStr ''January 2016'')
   \<and> fst (Reader_predict sample_externals (DataInput ())
          ((sample_state [''out'' \<mapsto> Dir []])\<lparr>args := sample_reader\<lparr>model_type := ''xlnet''\<rparr>\<rparr>))
     = Inl (ValueError ''too many values to unpack (expected 2)'')
   \<and> fst (Reader_predict sample_externals (DataInput ()) (sample_state [''out'' \<mapsto> Dir []]))
     = Inr (PyDict [(''exact'', PyNum 1)], PyStr ''January 2016'')"
  by code_simp

end
